theory Spec2Isabelle
  imports Complex_Main "HOL-Library.Sublist"
begin

section \<open>PathoMetrics dashboard: a shallow embedding of app.py\<close>

text \<open>
  The program is one Python module. It reads a table of patient rows, keeps a fixed
  table of healthy ranges, classifies lab values against it, shows summary statistics
  and fits a straight line through two chosen columns.

  Numbers: Python floats and ints are modelled as \<open>real\<close>, so arithmetic is exact where
  the program rounds to binary64. A spreadsheet cell is either a number or blank; pandas
  reads a blank numeric cell as NaN, which is kept as a value of its own because every
  comparison with it is false and every reduction skips it.

  Strings are byte lists: the Greek letter in two of the column names is written as its
  two UTF-8 bytes.
\<close>

subsection \<open>Data model\<close>

datatype cell = Num real | NaN

text \<open>Python's \<open>a <= b\<close> on floats: false as soon as one side is NaN.\<close>

fun cell_le :: "cell \<Rightarrow> cell \<Rightarrow> bool" where
  "cell_le (Num a) (Num b) = (a \<le> b)"
| "cell_le _ _ = False"

text \<open>
  The exceptions the module can raise. \<open>KeyError\<close> carries the missing key;
  \<open>ValueError\<close> and \<open>MissingDataError\<close> come out of the regression library.
\<close>

datatype error = KeyError string | ValueError | MissingDataError

text \<open>Python's exception hierarchy: \<open>KeyError\<close> is a subclass of \<open>LookupError\<close>.\<close>

fun is_LookupError :: "error \<Rightarrow> bool" where
  "is_LookupError (KeyError _) = True"
| "is_LookupError _ = False"

text \<open>
  One row of the spreadsheet. The identifier cell may be blank (\<open>None\<close>); the lab
  measurements are read by column name, as \<open>row[param]\<close> does.
\<close>

record patient_row =
  Patient_ID :: "string option"
  Age :: cell
  Gender :: string
  measurement :: "string \<Rightarrow> cell"

type_synonym dataset = "patient_row list"

abbreviation Hemoglobin :: string where
  "Hemoglobin \<equiv> ''Hemoglobin (g/dL)''"

abbreviation White_Blood_Cell_Count :: string where
  "White_Blood_Cell_Count \<equiv> ''White Blood Cell Count (10^3/'' @ [CHR 0xCE, CHR 0xBC] @ ''L)''"

abbreviation Platelet_Count :: string where
  "Platelet_Count \<equiv> ''Platelet Count (10^3/'' @ [CHR 0xCE, CHR 0xBC] @ ''L)''"

abbreviation Cholesterol :: string where
  "Cholesterol \<equiv> ''Cholesterol (mg/dL)''"

definition numeric_columns :: "string list" where
  "numeric_columns = [Hemoglobin, White_Blood_Cell_Count, Platelet_Count, Cholesterol]"

text \<open>The dict literal \<open>healthy_ranges\<close>, in source order.\<close>

definition healthy_ranges :: "(string \<times> real \<times> real) list" where
  "healthy_ranges =
     [(Hemoglobin, (12.0, 16.5)),
      (White_Blood_Cell_Count, (4.5, 11.0)),
      (Platelet_Count, (150, 450)),
      (Cholesterol, (0, 200))]"

subsection \<open>Range classifier\<close>

text \<open>
  \<open>healthy_ranges[parameter]\<close> raises \<open>KeyError\<close> for a key that is not in the dict;
  the chained comparison \<open>min_range <= value <= max_range\<close> is the conjunction of the
  two comparisons.
\<close>

definition is_within_healthy_range :: "cell \<Rightarrow> string \<Rightarrow> error + bool" where
  "is_within_healthy_range v parameter =
     (case map_of healthy_ranges parameter of
        None \<Rightarrow> Inl (KeyError parameter)
      | Some (min_range, max_range) \<Rightarrow>
          Inr (cell_le (Num min_range) v \<and> cell_le v (Num max_range)))"

text \<open>
  The caption of the cholesterol range in the layout: it prints only the upper bound,
  \<open>healthy_ranges['Cholesterol (mg/dL)'][1]\<close>, between two fixed pieces of text.
\<close>

definition cholesterol_caption :: "error + string \<times> real \<times> string" where
  "cholesterol_caption =
     (case map_of healthy_ranges Cholesterol of
        None \<Rightarrow> Inl (KeyError Cholesterol)
      | Some r \<Rightarrow> Inr (''Cholesterol: Less than '', snd r, '' mg/dL''))"

subsection \<open>Patient lookup and the details view\<close>

text \<open>
  \<open>df[df['Patient ID'] == patient_id]\<close>: the comparison builds one boolean per row
  (a blank identifier equals no string), and indexing by that mask keeps the rows
  whose boolean is true.
\<close>

definition find_patient :: "dataset \<Rightarrow> string \<Rightarrow> dataset" where
  "find_patient df patient_id =
     (let mask = map (\<lambda>row. Patient_ID row = Some patient_id) df
      in map fst (filter snd (zip df mask)))"

text \<open>
  The children the callback returns. The f-strings are kept as structured lines: which
  line, the values printed in it, and for a parameter line whether it is styled red.
\<close>

datatype element =
    Message string
  | Patient_ID_line "string option"
  | Age_line cell
  | Gender_line string
  | Parameter_line string cell bool

text \<open>The inner loop \<open>for param in numeric_columns\<close>; an exception leaves the loop.\<close>

fun parameter_lines :: "patient_row \<Rightarrow> string list \<Rightarrow> error + element list" where
  "parameter_lines row [] = Inr []"
| "parameter_lines row (param # params) =
     (case is_within_healthy_range (measurement row param) param of
        Inl e \<Rightarrow> Inl e
      | Inr healthy \<Rightarrow>
          (case parameter_lines row params of
             Inl e \<Rightarrow> Inl e
           | Inr rest \<Rightarrow> Inr (Parameter_line param (measurement row param) (\<not> healthy) # rest)))"

text \<open>The outer loop \<open>for index, row in patient_details.iterrows()\<close>.\<close>

fun detail_lines :: "dataset \<Rightarrow> error + element list" where
  "detail_lines [] = Inr []"
| "detail_lines (row # rows) =
     (case parameter_lines row numeric_columns of
        Inl e \<Rightarrow> Inl e
      | Inr ps \<Rightarrow>
          (case detail_lines rows of
             Inl e \<Rightarrow> Inl e
           | Inr rest \<Rightarrow>
               Inr ([Patient_ID_line (Patient_ID row), Age_line (Age row),
                     Gender_line (Gender row)] @ ps @ rest)))"

text \<open>
  \<open>not n_clicks\<close> holds for \<open>None\<close> and for 0; \<open>not patient_id\<close> holds for \<open>None\<close>
  and for the empty string.
\<close>

definition display_patient_details ::
  "dataset \<Rightarrow> nat option \<Rightarrow> string option \<Rightarrow> error + element list" where
  "display_patient_details df n_clicks patient_id =
     (if n_clicks = None \<or> n_clicks = Some 0 then
        Inr [Message ''Enter a Patient ID and click 'Search' to view details'']
      else
        (case patient_id of
           None \<Rightarrow> Inr [Message ''Enter a valid Patient ID to view details'']
         | Some pid \<Rightarrow>
             if pid = [] then Inr [Message ''Enter a valid Patient ID to view details'']
             else
               (let patient_details = find_patient df pid
                in if patient_details = [] then Inr [Message ''Patient ID not found'']
                   else detail_lines patient_details)))"

subsection \<open>Summary statistics\<close>

text \<open>pandas reductions skip NaN (\<open>skipna=True\<close>): the numbers of a column.\<close>

fun dropna :: "cell list \<Rightarrow> real list" where
  "dropna [] = []"
| "dropna (Num a # cs) = a # dropna cs"
| "dropna (NaN # cs) = dropna cs"

text \<open>
  \<open>Series.nunique()\<close> counts the distinct values and leaves blanks out
  (\<open>dropna=True\<close>).
\<close>

definition nunique :: "string option list \<Rightarrow> nat" where
  "nunique ids = length (remdups (filter (\<lambda>i. i \<noteq> None) ids))"

text \<open>
  \<open>Series.mean()\<close>, \<open>Series.median()\<close> and \<open>Series.std()\<close> (sample standard
  deviation, \<open>ddof=1\<close>). None of them raises on a column without numbers: the result
  is NaN. \<open>std\<close> is NaN for a single number too, since it divides by \<open>n - 1\<close>.
\<close>

definition series_mean :: "cell list \<Rightarrow> cell" where
  "series_mean col =
     (let xs = dropna col
      in if xs = [] then NaN else Num (sum_list xs / real (length xs)))"

definition series_median :: "cell list \<Rightarrow> cell" where
  "series_median col =
     (let xs = sort (dropna col); n = length xs
      in if n = 0 then NaN
         else if odd n then Num (xs ! (n div 2))
         else Num ((xs ! (n div 2 - 1) + xs ! (n div 2)) / 2))"

definition series_std :: "cell list \<Rightarrow> cell" where
  "series_std col =
     (let xs = dropna col; n = length xs; m = sum_list xs / real n
      in if n \<le> 1 then NaN
         else Num (sqrt (sum_list (map (\<lambda>x. (x - m)\<^sup>2) xs) / real (n - 1))))"

text \<open>The four lines of the data summary, with the values the f-strings format.\<close>

definition distinct_patient_count :: "dataset \<Rightarrow> nat" where
  "distinct_patient_count df = nunique (map Patient_ID df)"

definition mean_age :: "dataset \<Rightarrow> cell" where
  "mean_age df = series_mean (map Age df)"

definition median_parameter :: "dataset \<Rightarrow> string \<Rightarrow> cell" where
  "median_parameter df parameter = series_median (map (\<lambda>row. measurement row parameter) df)"

definition stddev_parameter :: "dataset \<Rightarrow> string \<Rightarrow> cell" where
  "stddev_parameter df parameter = series_std (map (\<lambda>row. measurement row parameter) df)"

datatype summary_line =
    Unique_patients nat
  | Mean_Age cell
  | Median_Hemoglobin cell
  | Std_Platelet_Count cell

definition data_summary :: "dataset \<Rightarrow> summary_line list" where
  "data_summary df =
     [Unique_patients (distinct_patient_count df),
      Mean_Age (mean_age df),
      Median_Hemoglobin (median_parameter df Hemoglobin),
      Std_Platelet_Count (stddev_parameter df Platelet_Count)]"

subsection \<open>Trend estimator\<close>

text \<open>\<open>df[c]\<close>: one column of the table.\<close>

definition column :: "dataset \<Rightarrow> string \<Rightarrow> cell list" where
  "column df c = map (\<lambda>row. measurement row c) df"

text \<open>The numbers of a column that has no blank cell.\<close>

fun numbers :: "cell list \<Rightarrow> real list option" where
  "numbers [] = Some []"
| "numbers (NaN # cs) = None"
| "numbers (Num a # cs) = (case numbers cs of None \<Rightarrow> None | Some as \<Rightarrow> Some (a # as))"

text \<open>
  \<open>sm.add_constant(df[x_variable])\<close> with its defaults (\<open>prepend=True\<close>,
  \<open>has_constant='skip'\<close>). The library first asks whether the column is already a
  constant: its range \<open>np.ptp(s)\<close> is zero and some entry is non-zero. If so the column
  of ones is skipped and the design matrix is the column alone; otherwise the design
  matrix has the column \<open>const\<close> of ones before it.
\<close>

definition safe_is_const :: "real list \<Rightarrow> bool" where
  "safe_is_const s = (s \<noteq> [] \<and> Max (set s) - Min (set s) = 0 \<and> list_ex (\<lambda>x. x \<noteq> 0) s)"

datatype design = With_const "real list" | Without_const "real list"

definition add_constant :: "real list \<Rightarrow> design" where
  "add_constant xs = (if safe_is_const xs then Without_const xs else With_const xs)"

fun exog_names :: "string \<Rightarrow> design \<Rightarrow> string list" where
  "exog_names x_variable (With_const xs) = [''const'', x_variable]"
| "exog_names x_variable (Without_const xs) = [x_variable]"

text \<open>
  \<open>sm.OLS(endog, exog).fit()\<close> with its default method: the parameters are the
  pseudo-inverse of the design matrix applied to \<open>endog\<close>. For the design matrix
  \<open>[1, x]\<close> of full column rank that is \<open>(X\<^sup>T X)\<^sup>-\<^sup>1 X\<^sup>T y\<close>, written out with
  the inverse of the 2 by 2 matrix \<open>[[n, Sx], [Sx, Sxx]]\<close>. When the two columns are
  parallel the matrix has rank one and its pseudo-inverse is \<open>X\<^sup>T\<close> divided by the sum
  of the squares of its entries; the same holds for the single column.
\<close>

definition pinv_solve :: "design \<Rightarrow> real list \<Rightarrow> real list" where
  "pinv_solve X ys =
     (case X of
        With_const xs \<Rightarrow>
          (let n = real (length xs);
               Sx = sum_list xs;
               Sxx = sum_list (map (\<lambda>x. x * x) xs);
               Sy = sum_list ys;
               Sxy = sum_list (map2 (*) xs ys);
               D = n * Sxx - Sx * Sx
           in if D \<noteq> 0 then [(Sxx * Sy - Sx * Sxy) / D, (n * Sxy - Sx * Sy) / D]
              else if n + Sxx = 0 then [0, 0]
              else [Sy / (n + Sxx), Sxy / (n + Sxx)])
      | Without_const xs \<Rightarrow>
          (let Sxx = sum_list (map (\<lambda>x. x * x) xs);
               Sxy = sum_list (map2 (*) xs ys)
           in if Sxx = 0 then [0] else [Sxy / Sxx]))"

text \<open>
  \<open>model.params\<close>: the parameters under the names of the design matrix's columns.
  A blank cell in \<open>endog\<close> is not rejected; it makes every parameter NaN.
\<close>

definition OLS_fit_params :: "string \<Rightarrow> design \<Rightarrow> cell list \<Rightarrow> (string \<times> cell) list" where
  "OLS_fit_params x_variable X endog =
     (case numbers endog of
        None \<Rightarrow> map (\<lambda>k. (k, NaN)) (exog_names x_variable X)
      | Some ys \<Rightarrow> zip (exog_names x_variable X) (map Num (pinv_solve X ys)))"

text \<open>Float arithmetic on cells: NaN propagates.\<close>

fun cell_add :: "cell \<Rightarrow> cell \<Rightarrow> cell" where
  "cell_add (Num a) (Num b) = Num (a + b)"
| "cell_add _ _ = NaN"

fun cell_mul :: "cell \<Rightarrow> cell \<Rightarrow> cell" where
  "cell_mul (Num a) (Num b) = Num (a * b)"
| "cell_mul _ _ = NaN"

text \<open>
  \<open>np.linspace(start, stop, num)\<close> with the end point included: \<open>num\<close> points,
  the \<open>i\<close>-th at \<open>start + i * step\<close> with \<open>step = (stop - start) / (num - 1)\<close>.
\<close>

definition linspace :: "real \<Rightarrow> real \<Rightarrow> nat \<Rightarrow> real list" where
  "linspace start stop num =
     (if num \<le> 1 then replicate num start
      else map (\<lambda>i. start + real i * ((stop - start) / real (num - 1))) [0..<num])"

text \<open>
  The figure the callback returns: the scatter points and title from \<open>px.scatter\<close>,
  and the trendline trace added to it.
\<close>

record trendline_trace =
  trace_x :: "real list"
  trace_y :: "cell list"
  trace_mode :: string
  trace_name :: string

record figure =
  scatter_points :: "(cell \<times> cell) list"
  title :: string
  trendline :: trendline_trace

text \<open>
  \<open>update_scatter_plot(x_variable, y_variable)\<close> over the table \<open>df\<close>. The library
  refuses a design matrix without rows (\<open>ValueError\<close>) and one with a blank cell
  (\<open>MissingDataError\<close>). The two look-ups in \<open>model.params\<close> raise \<open>KeyError\<close> for a
  name that is not a column of the design matrix.
\<close>

definition update_scatter_plot :: "dataset \<Rightarrow> string \<Rightarrow> string \<Rightarrow> error + figure" where
  "update_scatter_plot df x_variable y_variable =
     (if df = [] then Inl ValueError
      else
        (case numbers (column df x_variable) of
           None \<Rightarrow> Inl MissingDataError
         | Some xs \<Rightarrow>
             (let X = add_constant xs;
                  params = OLS_fit_params x_variable X (column df y_variable)
              in case map_of params ''const'' of
                   None \<Rightarrow> Inl (KeyError ''const'')
                 | Some const \<Rightarrow>
                     (case map_of params x_variable of
                        None \<Rightarrow> Inl (KeyError x_variable)
                      | Some slope \<Rightarrow>
                          (let x_range = linspace (Min (set xs)) (Max (set xs)) 100;
                               y_range = map (\<lambda>x. cell_add const (cell_mul slope (Num x))) x_range
                           in Inr \<lparr>scatter_points = zip (column df x_variable) (column df y_variable),
                                   title = x_variable @ '' vs. '' @ y_variable,
                                   trendline = \<lparr>trace_x = x_range, trace_y = y_range,
                                                 trace_mode = ''lines'',
                                                 trace_name = ''Trendline''\<rparr>\<rparr>)))))"

subsection \<open>The closed form of simple linear regression\<close>

text \<open>
  The formulas the specification gives for the fit, written from its words and not from
  the program, to be compared with the parameters the program computes: mean, variance
  and covariance of the samples (each sum divided by the number of samples), slope
  \<open>cov(x,y) / var(x)\<close> and intercept \<open>mean(y) - slope * mean(x)\<close>.
\<close>

definition mean :: "real list \<Rightarrow> real" where
  "mean xs = sum_list xs / real (length xs)"

definition var :: "real list \<Rightarrow> real" where
  "var xs = sum_list (map (\<lambda>x. (x - mean xs)\<^sup>2) xs) / real (length xs)"

definition cov :: "real list \<Rightarrow> real list \<Rightarrow> real" where
  "cov xs ys = sum_list (map2 (\<lambda>x y. (x - mean xs) * (y - mean ys)) xs ys) / real (length xs)"

definition closed_form_slope :: "real list \<Rightarrow> real list \<Rightarrow> real" where
  "closed_form_slope xs ys = cov xs ys / var xs"

definition closed_form_intercept :: "real list \<Rightarrow> real list \<Rightarrow> real" where
  "closed_form_intercept xs ys = mean ys - closed_form_slope xs ys * mean xs"

subsection \<open>Example rows\<close>

text \<open>
  A row with the given identifier, hemoglobin and white blood cell count; the other two
  lab columns hold 250 and 180.
\<close>

definition example_row :: "string \<Rightarrow> real \<Rightarrow> real \<Rightarrow> patient_row" where
  "example_row pid hb wbc =
     \<lparr>Patient_ID = Some pid, Age = Num 40, Gender = ''F'',
      measurement = (\<lambda>c. if c = Hemoglobin then Num hb
                         else if c = White_Blood_Cell_Count then Num wbc
                         else if c = Platelet_Count then Num 250 else Num 180)\<rparr>"

text \<open>
  Three tables of three rows: hemoglobin 1, 2, 3 with white blood cell count
  \<open>2 + 3 * hemoglobin\<close>; hemoglobin constantly 1; hemoglobin constantly 0.
\<close>

definition line_table :: dataset where
  "line_table = [example_row ''P1'' 1 5, example_row ''P2'' 2 8, example_row ''P3'' 3 11]"

definition ones_table :: dataset where
  "ones_table = [example_row ''P1'' 1 5, example_row ''P2'' 1 8, example_row ''P3'' 1 11]"

definition zeros_table :: dataset where
  "zeros_table = [example_row ''P1'' 0 5, example_row ''P2'' 0 8, example_row ''P3'' 0 11]"

text \<open>The third table with the white blood cell count of its second row left blank.\<close>

definition zeros_blank_table :: dataset where
  "zeros_blank_table =
     [example_row ''P1'' 0 5,
      (example_row ''P2'' 0 8)\<lparr>measurement := (\<lambda>c. if c = Hemoglobin then Num 0 else NaN)\<rparr>,
      example_row ''P3'' 0 11]"

section \<open>Properties\<close>

subsection \<open>Range classifier\<close>

lemma healthy_ranges_lookup:
  "map_of healthy_ranges p = Some r \<Longrightarrow>
     (p = Hemoglobin \<and> r = (12, 33 / 2)) \<or> (p = White_Blood_Cell_Count \<and> r = (9 / 2, 11)) \<or>
     (p = Platelet_Count \<and> r = (150, 450)) \<or> (p = Cholesterol \<and> r = (0, 200))"
  by (simp add: healthy_ranges_def split: if_splits)


text \<open>
  C1. For a parameter that has an entry \<open>(lo, hi)\<close> in the healthy-range table and a
  numeric value \<open>v\<close>, the classifier returns true exactly when \<open>lo \<le> v \<le> hi\<close>. Both
  end points are inside: the values \<open>lo\<close> and \<open>hi\<close> themselves classify as within
  range. (A blank cell, NaN, is never within range.)
\<close>

theorem range_classifier_inclusive:
  assumes "map_of healthy_ranges p = Some (lo, hi)"
  shows "is_within_healthy_range (Num v) p = Inr (lo \<le> v \<and> v \<le> hi) \<and>
         is_within_healthy_range (Num lo) p = Inr True \<and>
         is_within_healthy_range (Num hi) p = Inr True \<and>
         is_within_healthy_range NaN p = Inr False"
proof -
  have "lo \<le> hi" using healthy_ranges_lookup [OF assms] by auto
  then show ?thesis
    using assms by (simp add: is_within_healthy_range_def)
qed

theorem range_classifier_inclusive_witness:
  "map_of healthy_ranges Hemoglobin = Some (12.0, 16.5) \<and>
   is_within_healthy_range (Num 11.9) Hemoglobin = Inr False \<and>
   is_within_healthy_range (Num 12.0) Hemoglobin = Inr True \<and>
   is_within_healthy_range (Num 16.5) Hemoglobin = Inr True \<and>
   is_within_healthy_range (Num 16.6) Hemoglobin = Inr False"
proof -
  have h: "map_of healthy_ranges Hemoglobin = Some (12.0, 16.5)"
    by (simp add: healthy_ranges_def)
  show ?thesis
    using h range_classifier_inclusive [OF h, of "11.9"] range_classifier_inclusive [OF h, of "16.6"]
    by simp
qed

text \<open>
  C6. For a parameter name that is not a key of the healthy-range table, the classifier
  returns no boolean: it raises \<open>KeyError\<close> for that name, which is a \<open>LookupError\<close>,
  whatever the value.
\<close>

theorem unknown_parameter_raises_KeyError:
  assumes "p \<notin> set (map fst healthy_ranges)"
  shows "is_within_healthy_range v p = Inl (KeyError p) \<and> is_LookupError (KeyError p)"
proof -
  have "map_of healthy_ranges p = None"
    using assms by (simp add: map_of_eq_None_iff)
  then show ?thesis by (simp add: is_within_healthy_range_def)
qed

theorem unknown_parameter_raises_KeyError_witness:
  "''Age'' \<notin> set (map fst healthy_ranges) \<and>
   is_within_healthy_range (Num 40) ''Age'' = Inl (KeyError ''Age'') \<and>
   is_LookupError (KeyError ''Age'')"
proof -
  have h: "''Age'' \<notin> set (map fst healthy_ranges)" by (simp add: healthy_ranges_def)
  show ?thesis using h unknown_parameter_raises_KeyError [OF h, of "Num 40"] by simp
qed

text \<open>
  C10. The table's range for cholesterol is \<open>(0, 200)\<close>, so every negative cholesterol
  value is classified as outside the healthy range, although the caption in the layout
  prints only the upper bound (\<open>Less than 200\<close>).
\<close>

theorem negative_cholesterol_flagged:
  assumes "v < 0"
  shows "map_of healthy_ranges Cholesterol = Some (0, 200) \<and>
         is_within_healthy_range (Num v) Cholesterol = Inr False \<and>
         cholesterol_caption = Inr (''Cholesterol: Less than '', 200, '' mg/dL'')"
  using assms
  by (simp add: healthy_ranges_def is_within_healthy_range_def cholesterol_caption_def)

theorem negative_cholesterol_flagged_witness:
  "(-1::real) < 0 \<and> is_within_healthy_range (Num (-1)) Cholesterol = Inr False \<and>
   is_within_healthy_range (Num 0) Cholesterol = Inr True"
proof -
  have h: "(-1::real) < 0" by simp
  have z: "is_within_healthy_range (Num 0) Cholesterol = Inr True"
    by (simp add: healthy_ranges_def is_within_healthy_range_def)
  show ?thesis using h z negative_cholesterol_flagged [OF h] by simp
qed

subsection \<open>Details view\<close>

lemma parameter_lines_numeric_columns:
  "\<exists>ps. parameter_lines row numeric_columns = Inr ps"
  by (simp add: numeric_columns_def is_within_healthy_range_def healthy_ranges_def)

lemma detail_lines_total: "\<exists>ds. detail_lines rows = Inr ds"
proof (induction rows)
  case Nil
  show ?case by simp
next
  case (Cons row rows)
  obtain ps where ps: "parameter_lines row numeric_columns = Inr ps"
    using parameter_lines_numeric_columns by blast
  from Cons obtain ds where "detail_lines rows = Inr ds" by blast
  with ps show ?case by simp
qed

text \<open>
  C8. Every column name offered in the dropdowns has exactly one entry in the
  healthy-range table. So for every row, classifying the value of each of these columns
  returns a boolean, and the details view returns its children for every table, click
  count and search text: the \<open>KeyError\<close> of the classifier is never raised there.
\<close>

theorem exposed_parameters_have_ranges:
  "(\<forall>p \<in> set numeric_columns. length (filter (\<lambda>entry. fst entry = p) healthy_ranges) = 1) \<and>
   (\<forall>p \<in> set numeric_columns. \<exists>b. is_within_healthy_range (measurement row p) p = Inr b) \<and>
   (\<exists>ds. display_patient_details df n_clicks patient_id = Inr ds)"
proof -
  have "\<forall>p \<in> set numeric_columns. length (filter (\<lambda>entry. fst entry = p) healthy_ranges) = 1"
    by (simp add: numeric_columns_def healthy_ranges_def)
  moreover have "\<forall>p \<in> set numeric_columns. \<exists>b. is_within_healthy_range (measurement row p) p = Inr b"
    by (simp add: numeric_columns_def healthy_ranges_def is_within_healthy_range_def)
  moreover have "\<exists>ds. display_patient_details df n_clicks patient_id = Inr ds"
    using detail_lines_total
    by (simp add: display_patient_details_def Let_def split: option.splits)
  ultimately show ?thesis by blast
qed

theorem exposed_parameters_have_ranges_witness:
  "Cholesterol \<in> set numeric_columns \<and>
   length (filter (\<lambda>entry. fst entry = Cholesterol) healthy_ranges) = 1 \<and>
   (\<exists>b. is_within_healthy_range (measurement (example_row ''P1'' 13 7) Cholesterol) Cholesterol = Inr b) \<and>
   (\<exists>ds. display_patient_details [example_row ''P1'' 13 7] (Some 1) (Some ''P1'') = Inr ds)"
proof -
  have h: "Cholesterol \<in> set numeric_columns" by (simp add: numeric_columns_def)
  show ?thesis
    using h exposed_parameters_have_ranges
      [of "example_row ''P1'' 13 7" "[example_row ''P1'' 13 7]" "Some 1" "Some ''P1''"]
    by blast
qed

subsection \<open>Patient lookup\<close>

lemma find_patient_filter:
  "find_patient df pid = filter (\<lambda>row. Patient_ID row = Some pid) df"
  unfolding find_patient_def Let_def
  by (induction df) simp_all

lemma is_within_healthy_range_exposed:
  "p \<in> set numeric_columns \<Longrightarrow> \<exists>b. is_within_healthy_range v p = Inr b"
  by (auto simp: numeric_columns_def healthy_ranges_def is_within_healthy_range_def)

lemma parameter_lines_exposed:
  "set ps \<subseteq> set numeric_columns \<Longrightarrow>
   parameter_lines row ps =
     Inr (map (\<lambda>param. Parameter_line param (measurement row param)
                 (is_within_healthy_range (measurement row param) param = Inr False)) ps)"
proof (induction ps)
  case Nil
  show ?case by simp
next
  case (Cons p ps)
  obtain b where b: "is_within_healthy_range (measurement row p) p = Inr b"
    using Cons.prems is_within_healthy_range_exposed [of p "measurement row p"] by auto
  show ?case using Cons b by simp
qed

lemma detail_lines_rows:
  "detail_lines rows =
     Inr (concat (map (\<lambda>row.
        [Patient_ID_line (Patient_ID row), Age_line (Age row), Gender_line (Gender row)] @
        map (\<lambda>param. Parameter_line param (measurement row param)
               (is_within_healthy_range (measurement row param) param = Inr False))
          numeric_columns) rows))"
  by (induction rows) (simp_all add: parameter_lines_exposed)

text \<open>
  C7. Patient lookup returns exactly the rows whose identifier equals the searched
  string, all of them and in the table's order. It returns the empty list exactly when
  no row matches; that is no error: the details view then shows the message
  \<open>Patient ID not found\<close>. When rows match, the details view returned for a click
  with that search text is made of the lines of every matching row, one row after the
  other in the table's order: identifier, age, gender and one line per exposed
  parameter, red exactly when the value is outside its healthy range.
\<close>

theorem find_patient_all_matches_in_order:
  "find_patient df pid = filter (\<lambda>row. Patient_ID row = Some pid) df \<and>
   subseq (find_patient df pid) df \<and>
   ((find_patient df pid = []) = (\<forall>row \<in> set df. Patient_ID row \<noteq> Some pid)) \<and>
   (pid \<noteq> [] \<and> find_patient df pid = [] \<longrightarrow>
      display_patient_details df (Some (Suc n)) (Some pid) = Inr [Message ''Patient ID not found'']) \<and>
   (pid \<noteq> [] \<and> find_patient df pid \<noteq> [] \<longrightarrow>
      display_patient_details df (Some (Suc n)) (Some pid) =
        Inr (concat (map (\<lambda>row.
          [Patient_ID_line (Patient_ID row), Age_line (Age row), Gender_line (Gender row)] @
          map (\<lambda>param. Parameter_line param (measurement row param)
                 (is_within_healthy_range (measurement row param) param = Inr False))
            numeric_columns)
          (filter (\<lambda>row. Patient_ID row = Some pid) df))))"
proof -
  have "display_patient_details df (Some (Suc n)) (Some pid) =
      detail_lines (filter (\<lambda>row. Patient_ID row = Some pid) df)"
    if "pid \<noteq> []" "find_patient df pid \<noteq> []"
    using that by (simp add: display_patient_details_def find_patient_filter)
  then show ?thesis
    by (simp add: find_patient_filter display_patient_details_def filter_empty_conv
        detail_lines_rows)
qed

theorem find_patient_all_matches_in_order_witness:
  "find_patient [example_row ''P1'' 13 7, example_row ''P2'' 14 8, example_row ''P1'' 17 9] ''P1''
     = [example_row ''P1'' 13 7, example_row ''P1'' 17 9] \<and>
   find_patient [example_row ''P1'' 13 7, example_row ''P2'' 14 8, example_row ''P1'' 17 9] ''X'' = [] \<and>
   display_patient_details [example_row ''P1'' 13 7, example_row ''P2'' 14 8, example_row ''P1'' 17 9]
     (Some 1) (Some ''X'') = Inr [Message ''Patient ID not found''] \<and>
   display_patient_details [example_row ''P1'' 13 7, example_row ''P2'' 14 8, example_row ''P1'' 17 9]
     (Some 1) (Some ''P1'') =
     Inr [Patient_ID_line (Some ''P1''), Age_line (Num 40), Gender_line ''F'',
          Parameter_line Hemoglobin (Num 13) False,
          Parameter_line White_Blood_Cell_Count (Num 7) False,
          Parameter_line Platelet_Count (Num 250) False,
          Parameter_line Cholesterol (Num 180) False,
          Patient_ID_line (Some ''P1''), Age_line (Num 40), Gender_line ''F'',
          Parameter_line Hemoglobin (Num 17) True,
          Parameter_line White_Blood_Cell_Count (Num 9) False,
          Parameter_line Platelet_Count (Num 250) False,
          Parameter_line Cholesterol (Num 180) False]"
proof -
  have r1: "is_within_healthy_range (Num 13) Hemoglobin = Inr True"
    and r2: "is_within_healthy_range (Num 17) Hemoglobin = Inr False"
    and r3: "is_within_healthy_range (Num 7) White_Blood_Cell_Count = Inr True"
    and r4: "is_within_healthy_range (Num 9) White_Blood_Cell_Count = Inr True"
    and r5: "is_within_healthy_range (Num 250) Platelet_Count = Inr True"
    and r6: "is_within_healthy_range (Num 180) Cholesterol = Inr True"
    by (simp_all add: is_within_healthy_range_def healthy_ranges_def)
  show ?thesis
    using find_patient_all_matches_in_order
      [of "[example_row ''P1'' 13 7, example_row ''P2'' 14 8, example_row ''P1'' 17 9]" "''P1''" 0]
      find_patient_all_matches_in_order
      [of "[example_row ''P1'' 13 7, example_row ''P2'' 14 8, example_row ''P1'' 17 9]" "''X''" 0]
      r1 r2 r3 r4 r5 r6
    by (simp add: example_row_def numeric_columns_def)
qed

subsection \<open>Summary statistics\<close>

lemma nunique_card: "nunique ids = card {i. Some i \<in> set ids}"
proof -
  have "nunique ids = card (set (filter (\<lambda>i. i \<noteq> None) ids))"
    by (simp add: nunique_def length_remdups_card_conv)
  also have "set (filter (\<lambda>i. i \<noteq> None) ids) = Some ` {i. Some i \<in> set ids}"
    by (auto simp: image_iff)
  also have "card (Some ` {i. Some i \<in> set ids}) = card {i. Some i \<in> set ids}"
    by (simp add: card_image)
  finally show ?thesis .
qed

text \<open>
  C9. The count of unique patients is the number of distinct identifier strings that
  occur in the table's identifier column (a blank identifier cell is not an
  identifier). For the identifiers P1, P1, P2 it is 2.
\<close>

theorem distinct_patient_count_is_card:
  "distinct_patient_count df = card {i. Some i \<in> Patient_ID ` set df}"
  by (simp add: distinct_patient_count_def nunique_card)

theorem distinct_patient_count_is_card_witness:
  "distinct_patient_count [example_row ''P1'' 13 7, example_row ''P1'' 15 9, example_row ''P2'' 14 8] = 2 \<and>
   card {i. Some i \<in> Patient_ID `
     set [example_row ''P1'' 13 7, example_row ''P1'' 15 9, example_row ''P2'' 14 8]} = 2"
proof -
  have "distinct_patient_count
      [example_row ''P1'' 13 7, example_row ''P1'' 15 9, example_row ''P2'' 14 8] = 2"
    by (simp add: distinct_patient_count_def nunique_def example_row_def)
  then show ?thesis
    using distinct_patient_count_is_card
      [of "[example_row ''P1'' 13 7, example_row ''P1'' 15 9, example_row ''P2'' 14 8]"]
    by simp
qed

text \<open>
  C5, as the spec states it, fails: on a table without rows the mean age, the median of
  a parameter and the standard deviation of a parameter are each NaN, and nothing is
  raised.
\<close>

theorem empty_dataset_statistics_counterexample:
  "mean_age [] = NaN \<and> median_parameter [] Hemoglobin = NaN \<and>
   stddev_parameter [] Platelet_Count = NaN"
  by (simp add: mean_age_def median_parameter_def stddev_parameter_def
      series_mean_def series_median_def series_std_def)

lemma sort_nil_iff: "sort xs = [] \<longleftrightarrow> xs = []"
  by (metis length_sort length_0_conv)

text \<open>
  C5, amended. The summary statistics raise no error of their own. A column without
  any number (in particular the column of a table without rows) has mean, median and
  standard deviation NaN; a column with at least one number has a numeric mean and
  median. The data summary of the empty table is 0 unique patients and three NaN.
\<close>

theorem statistics_without_numbers_are_NaN:
  "(dropna col = [] \<longrightarrow> series_mean col = NaN \<and> series_median col = NaN \<and> series_std col = NaN) \<and>
   (dropna col \<noteq> [] \<longrightarrow> series_mean col \<noteq> NaN \<and> series_median col \<noteq> NaN) \<and>
   data_summary [] =
     [Unique_patients 0, Mean_Age NaN, Median_Hemoglobin NaN, Std_Platelet_Count NaN]"
  by (simp add: series_mean_def series_median_def series_std_def Let_def data_summary_def
      distinct_patient_count_def nunique_def mean_age_def median_parameter_def stddev_parameter_def
      sort_nil_iff)

theorem statistics_without_numbers_are_NaN_witness:
  "dropna [NaN, NaN] = [] \<and> series_mean [NaN, NaN] = NaN \<and> series_median [NaN, NaN] = NaN \<and>
   series_std [NaN, NaN] = NaN \<and> dropna [Num 1, NaN, Num 3] \<noteq> [] \<and>
   series_mean [Num 1, NaN, Num 3] = Num 2"
proof -
  have h: "dropna [NaN, NaN] = []" by simp
  have m: "series_mean [Num 1, NaN, Num 3] = Num 2" by (simp add: series_mean_def)
  show ?thesis
    using h m statistics_without_numbers_are_NaN [of "[NaN, NaN]"] by simp
qed

subsection \<open>Trend estimator\<close>

lemma numbers_map_Num: "numbers (map Num xs) = Some xs"
  by (induction xs) simp_all

lemma sum_sq_dev:
  "sum_list (map (\<lambda>x. (x - m)\<^sup>2) xs) =
     sum_list (map (\<lambda>x. x * x) xs) - 2 * m * sum_list xs + real (length xs) * m * m"
  by (induction xs) (simp_all add: algebra_simps power2_eq_square)

lemma sum_cross_dev:
  "length xs = length ys \<Longrightarrow>
   sum_list (map2 (\<lambda>x y. (x - a) * (y - b)) xs ys) =
     sum_list (map2 (*) xs ys) - b * sum_list xs - a * sum_list ys + real (length xs) * a * b"
  by (induction xs ys rule: list_induct2) (simp_all add: algebra_simps)

lemma var_times_n2:
  assumes "xs \<noteq> []"
  shows "real (length xs) * real (length xs) * var xs =
         real (length xs) * sum_list (map (\<lambda>x. x * x) xs) - sum_list xs * sum_list xs"
proof -
  have n: "real (length xs) \<noteq> 0" using assms by simp
  show ?thesis
    unfolding var_def mean_def sum_sq_dev using n
    by (simp add: field_simps)
qed

lemma cov_times_n2:
  assumes "xs \<noteq> []" "length xs = length ys"
  shows "real (length xs) * real (length xs) * cov xs ys =
         real (length xs) * sum_list (map2 (*) xs ys) - sum_list xs * sum_list ys"
proof -
  have n: "real (length xs) \<noteq> 0" using assms(1) by simp
  have m: "real (length ys) = real (length xs)" using assms(2) by simp
  show ?thesis
    unfolding cov_def mean_def sum_cross_dev [OF assms(2)] m using n
    by (simp add: field_simps)
qed

lemma const_list_sums:
  assumes "\<forall>x \<in> set xs. x = c"
  shows "sum_list xs = real (length xs) * c"
    and "sum_list (map (\<lambda>x. x * x) xs) = real (length xs) * (c * c)"
  using assms by (induction xs) (simp_all add: algebra_simps)

lemma Max_eq_Min_const:
  assumes "xs \<noteq> []" "Max (set xs) - Min (set xs) = (0::real)"
  shows "\<forall>x \<in> set xs. x = Min (set xs)"
proof
  fix x assume x: "x \<in> set xs"
  have "Min (set xs) \<le> x" "x \<le> Max (set xs)" using x by simp_all
  with assms(2) show "x = Min (set xs)" by linarith
qed

lemma var_pos_not_const:
  assumes "0 < var xs"
  shows "Max (set xs) - Min (set xs) \<noteq> 0"
proof
  assume z: "Max (set xs) - Min (set xs) = 0"
  have ne: "xs \<noteq> []" using assms by (auto simp: var_def)
  have c: "\<forall>x \<in> set xs. x = Min (set xs)" using Max_eq_Min_const [OF ne z] .
  have "real (length xs) * real (length xs) * var xs = 0"
    unfolding var_times_n2 [OF ne] const_list_sums [OF c] by (simp add: algebra_simps)
  with ne assms show False by simp
qed

lemma var_pos_det:
  assumes "0 < var xs"
  shows "real (length xs) * sum_list (map (\<lambda>x. x * x) xs) - sum_list xs * sum_list xs \<noteq> 0"
proof -
  have ne: "xs \<noteq> []" using assms by (auto simp: var_def)
  have "0 < real (length xs) * real (length xs) * var xs" using ne assms by simp
  then show ?thesis unfolding var_times_n2 [OF ne] by simp
qed

lemma pinv_solve_closed_form:
  assumes v: "0 < var xs" and len: "length xs = length ys"
  shows "pinv_solve (With_const xs) ys = [closed_form_intercept xs ys, closed_form_slope xs ys]"
proof -
  define n where "n = real (length xs)"
  define Sx where "Sx = sum_list xs"
  define Sxx where "Sxx = sum_list (map (\<lambda>x. x * x) xs)"
  define Sy where "Sy = sum_list ys"
  define Sxy where "Sxy = sum_list (map2 (*) xs ys)"
  define D where "D = n * Sxx - Sx * Sx"
  have ne: "xs \<noteq> []" using v by (auto simp: var_def)
  have n0: "n \<noteq> 0" using ne by (simp add: n_def)
  have D0: "D \<noteq> 0" using var_pos_det [OF v] by (simp add: D_def n_def Sx_def Sxx_def)
  have vD: "n * n * var xs = D"
    using var_times_n2 [OF ne] by (simp add: D_def n_def Sx_def Sxx_def)
  have cD: "n * n * cov xs ys = n * Sxy - Sx * Sy"
    using cov_times_n2 [OF ne len] by (simp add: n_def Sx_def Sxy_def Sy_def)
  have vx: "var xs = D / (n * n)" using vD n0 by (simp add: field_simps)
  have cx: "cov xs ys = (n * Sxy - Sx * Sy) / (n * n)" using cD n0 by (simp add: field_simps)
  have slope: "closed_form_slope xs ys = (n * Sxy - Sx * Sy) / D"
    unfolding closed_form_slope_def vx cx using n0 D0 by (simp add: field_simps)
  have my: "mean ys = Sy / n" using len by (simp add: mean_def Sy_def n_def)
  have mx: "mean xs = Sx / n" by (simp add: mean_def Sx_def n_def)
  have "Sy / n - (n * Sxy - Sx * Sy) / D * (Sx / n) = (Sxx * Sy - Sx * Sxy) / D"
    using n0 D0 by (simp add: D_def field_simps)
  then have icpt: "closed_form_intercept xs ys = (Sxx * Sy - Sx * Sxy) / D"
    unfolding closed_form_intercept_def slope my mx .
  have "pinv_solve (With_const xs) ys = [(Sxx * Sy - Sx * Sxy) / D, (n * Sxy - Sx * Sy) / D]"
    using D0 unfolding pinv_solve_def D_def n_def Sx_def Sxx_def Sy_def Sxy_def
    by (simp add: Let_def)
  then show ?thesis by (simp add: slope icpt)
qed


lemma numeric_columns_not_const: "x \<in> set numeric_columns \<Longrightarrow> x \<noteq> ''const''"
  by (auto simp: numeric_columns_def)

lemma sum_line:
  "sum_list (map (\<lambda>x. 2 + 3 * x) xs) = 2 * real (length xs) + 3 * sum_list xs"
  by (induction xs) (simp_all add: algebra_simps)

lemma sum_x_line:
  "sum_list (map2 (*) xs (map (\<lambda>x. 2 + 3 * x) xs)) =
     2 * sum_list xs + 3 * sum_list (map (\<lambda>x. x * x) (xs :: real list))"
  by (induction xs) (simp_all add: algebra_simps)

lemma pinv_solve_full_rank:
  assumes "real (length xs) * sum_list (map (\<lambda>x. x * x) xs) - sum_list xs * sum_list xs \<noteq> 0"
  shows "pinv_solve (With_const xs) ys =
     [(sum_list (map (\<lambda>x. x * x) xs) * sum_list ys - sum_list xs * sum_list (map2 (*) xs ys)) /
        (real (length xs) * sum_list (map (\<lambda>x. x * x) xs) - sum_list xs * sum_list xs),
      (real (length xs) * sum_list (map2 (*) xs ys) - sum_list xs * sum_list ys) /
        (real (length xs) * sum_list (map (\<lambda>x. x * x) xs) - sum_list xs * sum_list xs)]"
  using assms by (simp add: pinv_solve_def Let_def)

lemma pinv_solve_line:
  assumes v: "0 < var xs"
  shows "pinv_solve (With_const xs) (map (\<lambda>x. 2 + 3 * x) xs) = [2, 3]"
proof -
  define n where "n = real (length xs)"
  define Sx where "Sx = sum_list xs"
  define Sxx where "Sxx = sum_list (map (\<lambda>x. x * x) xs)"
  define D where "D = n * Sxx - Sx * Sx"
  have D0: "D \<noteq> 0" using var_pos_det [OF v] by (simp add: D_def n_def Sx_def Sxx_def)
  have a: "(Sxx * (2 * n + 3 * Sx) - Sx * (2 * Sx + 3 * Sxx)) / D = 2"
    using D0 by (simp add: D_def field_simps)
  have b: "(n * (2 * Sx + 3 * Sxx) - Sx * (2 * n + 3 * Sx)) / D = 3"
    using D0 by (simp add: D_def field_simps)
  have "pinv_solve (With_const xs) (map (\<lambda>x. 2 + 3 * x) xs) =
      [(Sxx * (2 * n + 3 * Sx) - Sx * (2 * Sx + 3 * Sxx)) / D,
       (n * (2 * Sx + 3 * Sxx) - Sx * (2 * n + 3 * Sx)) / D]"
    using pinv_solve_full_rank [of xs "map (\<lambda>x. 2 + 3 * x) xs"] D0
    unfolding sum_line sum_x_line D_def n_def Sx_def Sxx_def by blast
  then show ?thesis unfolding a b .
qed

lemma column_lengths:
  assumes "column df x_variable = map Num xs" "column df y_variable = map Num ys"
  shows "length xs = length ys" "length xs = length df"
proof -
  have "length (column df x_variable) = length df" "length (column df y_variable) = length df"
    by (simp_all add: column_def)
  with assms show "length xs = length ys" "length xs = length df" by simp_all
qed

lemma add_constant_valid: "0 < var xs \<Longrightarrow> add_constant xs = With_const xs"
  using var_pos_not_const [of xs] by (simp add: add_constant_def safe_is_const_def)

lemma OLS_fit_params_valid:
  assumes "column df x_variable = map Num xs" "column df y_variable = map Num ys" "0 < var xs"
  shows "OLS_fit_params x_variable (add_constant xs) (column df y_variable) =
           [(''const'', Num (closed_form_intercept xs ys)),
            (x_variable, Num (closed_form_slope xs ys))]"
  using assms column_lengths(1) [OF assms(1,2)]
  by (simp add: OLS_fit_params_def add_constant_valid numbers_map_Num pinv_solve_closed_form)

lemma update_scatter_plot_valid:
  assumes xv: "x_variable \<in> set numeric_columns"
    and cx: "column df x_variable = map Num xs" and cy: "column df y_variable = map Num ys"
    and v: "0 < var xs"
  shows "update_scatter_plot df x_variable y_variable =
     Inr \<lparr>scatter_points = zip (map Num xs) (map Num ys),
          title = x_variable @ '' vs. '' @ y_variable,
          trendline =
            \<lparr>trace_x = linspace (Min (set xs)) (Max (set xs)) 100,
             trace_y = map (\<lambda>x. Num (closed_form_intercept xs ys + closed_form_slope xs ys * x))
                        (linspace (Min (set xs)) (Max (set xs)) 100),
             trace_mode = ''lines'', trace_name = ''Trendline''\<rparr>\<rparr>"
proof -
  have ne: "xs \<noteq> []" using v by (auto simp: var_def)
  then have df: "df \<noteq> []" using column_lengths(2) [OF cx cy] by auto
  have nc: "x_variable \<noteq> ''const''" using numeric_columns_not_const [OF xv] .
  have p: "OLS_fit_params x_variable (add_constant xs) (map Num ys) =
           [(''const'', Num (closed_form_intercept xs ys)),
            (x_variable, Num (closed_form_slope xs ys))]"
    using OLS_fit_params_valid [OF cx cy v] cy by simp
  show ?thesis
    unfolding update_scatter_plot_def cx cy
    using df nc by (simp add: numbers_map_Num p Let_def)
qed

lemma length_linspace: "length (linspace a b n) = n"
  by (simp add: linspace_def)

lemma linspace_nth:
  "1 < n \<Longrightarrow> i < n \<Longrightarrow> linspace a b n ! i = a + real i * ((b - a) / real (n - 1))"
  by (simp add: linspace_def)

lemma linspace_first: "1 < n \<Longrightarrow> linspace a b n ! 0 = a"
  by (simp add: linspace_nth)

lemma linspace_last: "1 < n \<Longrightarrow> linspace a b n ! (n - 1) = b"
  by (simp add: linspace_nth)

lemma linspace_step:
  assumes "Suc i < n"
  shows "linspace a b n ! Suc i - linspace a b n ! i = (b - a) / real (n - 1)"
proof -
  define c where "c = (b - a) / real (n - 1)"
  have e1: "linspace a b n ! Suc i = a + real (Suc i) * c"
    using assms linspace_nth [of n "Suc i" a b] by (auto simp only: c_def)
  have e2: "linspace a b n ! i = a + real i * c"
    using assms linspace_nth [of n i a b] by (auto simp only: c_def)
  show ?thesis unfolding e1 e2 c_def [symmetric] by (simp add: algebra_simps)
qed

lemma linspace_bounds:
  assumes "a \<le> b" "x \<in> set (linspace a b n)"
  shows "a \<le> x \<and> x \<le> b"
proof (cases "n \<le> 1")
  case True
  with assms show ?thesis by (auto simp: linspace_def)
next
  case False
  then obtain i where i: "i < n" and x: "x = a + real i * ((b - a) / real (n - 1))"
    using assms(2) by (auto simp: linspace_def)
  have n1: "0 < real (n - 1)" using False by simp
  have "0 \<le> real i * ((b - a) / real (n - 1))" using assms(1) by simp
  moreover have "real i \<le> real (n - 1)" using i by simp
  then have "real i * (b - a) \<le> real (n - 1) * (b - a)"
    using assms(1) by (simp add: mult_right_mono)
  then have "real i * ((b - a) / real (n - 1)) \<le> b - a"
    using n1 by (simp add: field_simps)
  ultimately show ?thesis using x by simp
qed

text \<open>
  C2. Let the two chosen columns hold the numbers \<open>xs\<close> and \<open>ys\<close> (they have the same
  length, being columns of one table) with \<open>var xs > 0\<close>. Then the fitted parameters are
  the closed form of ordinary least squares: slope \<open>cov(x,y) / var(x)\<close> and intercept
  \<open>mean(y) - slope * mean(x)\<close>. If the points lie on \<open>y = 2 + 3 * x\<close>, the intercept
  is 2 and the slope is 3. The callback returns a figure whose trendline has the 100
  sampled x of \<open>np.linspace\<close> between the minimum and the maximum of the x column and
  100 sampled y, each \<open>intercept + slope * x\<close> for the sampled x at the same position;
  for points on \<open>y = 2 + 3 * x\<close> each sampled y is \<open>2 + 3 * x\<close>. (Exact arithmetic;
  the program computes the same in binary64 up to rounding.)
\<close>

theorem fit_is_least_squares_closed_form:
  assumes "x_variable \<in> set numeric_columns"
    and "column df x_variable = map Num xs" and "column df y_variable = map Num ys"
    and "0 < var xs"
  shows "OLS_fit_params x_variable (add_constant xs) (column df y_variable) =
           [(''const'', Num (closed_form_intercept xs ys)),
            (x_variable, Num (closed_form_slope xs ys))] \<and>
         (ys = map (\<lambda>x. 2 + 3 * x) xs \<longrightarrow>
            closed_form_intercept xs ys = 2 \<and> closed_form_slope xs ys = 3) \<and>
         (\<exists>fig. update_scatter_plot df x_variable y_variable = Inr fig \<and>
            scatter_points fig = zip (column df x_variable) (column df y_variable) \<and>
            trace_x (trendline fig) = linspace (Min (set xs)) (Max (set xs)) 100 \<and>
            length (trace_x (trendline fig)) = 100 \<and>
            length (trace_y (trendline fig)) = 100 \<and>
            trace_y (trendline fig) =
              map (\<lambda>x. Num (closed_form_intercept xs ys + closed_form_slope xs ys * x))
                (trace_x (trendline fig)) \<and>
            (ys = map (\<lambda>x. 2 + 3 * x) xs \<longrightarrow>
               trace_y (trendline fig) = map (\<lambda>x. Num (2 + 3 * x)) (trace_x (trendline fig))))"
proof -
  have len: "length xs = length ys" using column_lengths(1) [OF assms(2,3)] .
  have line: "closed_form_intercept xs ys = 2 \<and> closed_form_slope xs ys = 3"
    if "ys = map (\<lambda>x. 2 + 3 * x) xs"
    using pinv_solve_closed_form [OF assms(4) len] pinv_solve_line [OF assms(4)] that by simp
  show ?thesis
    using OLS_fit_params_valid [OF assms(2,3,4)] update_scatter_plot_valid [OF assms] line
    by (simp add: assms(2,3) length_linspace)
qed

lemma line_table_columns:
  "column line_table Hemoglobin = map Num [1, 2, 3]"
  "column line_table White_Blood_Cell_Count = map Num [5, 8, 11]"
  by (simp_all add: line_table_def column_def example_row_def)

lemma var_123: "var [1, 2, 3] = 2 / 3"
  by (simp add: var_def mean_def power2_eq_square)

theorem fit_is_least_squares_closed_form_witness:
  "Hemoglobin \<in> set numeric_columns \<and>
   column line_table Hemoglobin = map Num [1, 2, 3] \<and>
   column line_table White_Blood_Cell_Count = map Num [5, 8, 11] \<and>
   0 < var [1, 2, 3] \<and>
   OLS_fit_params Hemoglobin (add_constant [1, 2, 3]) (column line_table White_Blood_Cell_Count) =
     [(''const'', Num 2), (Hemoglobin, Num 3)] \<and>
   (\<exists>fig. update_scatter_plot line_table Hemoglobin White_Blood_Cell_Count = Inr fig \<and>
      scatter_points fig = [(Num 1, Num 5), (Num 2, Num 8), (Num 3, Num 11)] \<and>
      length (trace_y (trendline fig)) = 100 \<and>
      trace_x (trendline fig) ! 0 = 1 \<and> trace_y (trendline fig) ! 0 = Num 5 \<and>
      trace_x (trendline fig) ! 99 = 3 \<and> trace_y (trendline fig) ! 99 = Num 11)"
proof -
  have h1: "Hemoglobin \<in> set numeric_columns" by (simp add: numeric_columns_def)
  have h4: "0 < var [1, 2, 3]" by (simp add: var_123)
  have l0: "linspace 1 3 100 ! 0 = 1" by (simp add: linspace_first)
  have l99: "linspace 1 3 100 ! 99 = 3" using linspace_last [of 100 1 3] by simp
  have len: "length (linspace 1 3 100) = 100" by (simp add: length_linspace)
  from fit_is_least_squares_closed_form [OF h1 line_table_columns h4]
  obtain fig where f: "update_scatter_plot line_table Hemoglobin White_Blood_Cell_Count = Inr fig"
    and sp: "scatter_points fig = zip (column line_table Hemoglobin)
               (column line_table White_Blood_Cell_Count)"
    and tx: "trace_x (trendline fig) = linspace (Min (set [1, 2, 3])) (Max (set [1, 2, 3])) 100"
    and ly: "length (trace_y (trendline fig)) = 100"
    and ty: "trace_y (trendline fig) = map (\<lambda>x. Num (2 + 3 * x)) (trace_x (trendline fig))"
    and ps: "OLS_fit_params Hemoglobin (add_constant [1, 2, 3])
               (column line_table White_Blood_Cell_Count) =
             [(''const'', Num 2), (Hemoglobin, Num 3)]"
    by auto
  have tx': "trace_x (trendline fig) = linspace 1 3 100" using tx by simp
  have "trace_y (trendline fig) ! 0 = Num 5" "trace_y (trendline fig) ! 99 = Num 11"
    unfolding ty tx' using len l0 l99 by simp_all
  then show ?thesis
    using h1 h4 line_table_columns f sp ly ps l0 l99 tx' by simp
qed

text \<open>
  C3. For the same valid input the trendline has exactly 100 sampled x-coordinates (the
  program fixes the number of samples at 100). The first is the minimum of the x column
  and the last its maximum, consecutive samples differ by the same step
  \<open>(max - min) / 99\<close>, all lie between minimum and maximum, and the \<open>i\<close>-th sampled y
  is \<open>a + b * x\<^sub>i\<close> for the fitted intercept \<open>a\<close> and slope \<open>b\<close>.
\<close>

theorem trendline_samples:
  assumes "x_variable \<in> set numeric_columns"
    and "column df x_variable = map Num xs" and "column df y_variable = map Num ys"
    and "0 < var xs"
  shows "\<exists>fig a b. update_scatter_plot df x_variable y_variable = Inr fig \<and>
     OLS_fit_params x_variable (add_constant xs) (column df y_variable) =
       [(''const'', Num a), (x_variable, Num b)] \<and>
     length (trace_x (trendline fig)) = 100 \<and>
     length (trace_y (trendline fig)) = 100 \<and>
     trace_x (trendline fig) ! 0 = Min (set xs) \<and>
     trace_x (trendline fig) ! 99 = Max (set xs) \<and>
     (\<forall>i<99. trace_x (trendline fig) ! Suc i - trace_x (trendline fig) ! i =
        (Max (set xs) - Min (set xs)) / 99) \<and>
     (\<forall>x \<in> set (trace_x (trendline fig)). Min (set xs) \<le> x \<and> x \<le> Max (set xs)) \<and>
     (\<forall>i<100. trace_y (trendline fig) ! i = Num (a + b * trace_x (trendline fig) ! i))"
proof -
  let ?lo = "Min (set xs)" and ?hi = "Max (set xs)"
  let ?a = "closed_form_intercept xs ys" and ?b = "closed_form_slope xs ys"
  have ne: "xs \<noteq> []" using assms(4) by (auto simp: var_def)
  have le: "?lo \<le> ?hi" using ne by (simp add: Min_le_iff)
  have first: "linspace ?lo ?hi 100 ! 0 = ?lo" by (simp add: linspace_first)
  have last: "linspace ?lo ?hi 100 ! 99 = ?hi" using linspace_last [of 100 ?lo ?hi] by simp
  have step: "\<forall>i<99. linspace ?lo ?hi 100 ! Suc i - linspace ?lo ?hi 100 ! i = (?hi - ?lo) / 99"
    using linspace_step [of _ 100 ?lo ?hi] by simp
  have bounds: "\<forall>x \<in> set (linspace ?lo ?hi 100). ?lo \<le> x \<and> x \<le> ?hi"
    using linspace_bounds [OF le] by blast
  have ys: "\<forall>i<100. map (\<lambda>x. Num (?a + ?b * x)) (linspace ?lo ?hi 100) ! i =
      Num (?a + ?b * linspace ?lo ?hi 100 ! i)"
    by (simp add: length_linspace)
  show ?thesis
    using update_scatter_plot_valid [OF assms] OLS_fit_params_valid [OF assms(2,3,4)]
      first last step bounds ys
    by (simp add: length_linspace)
qed

theorem trendline_samples_witness:
  "Hemoglobin \<in> set numeric_columns \<and>
   column line_table Hemoglobin = map Num [1, 2, 3] \<and>
   column line_table White_Blood_Cell_Count = map Num [5, 8, 11] \<and>
   0 < var [1, 2, 3] \<and>
   (\<exists>fig. update_scatter_plot line_table Hemoglobin White_Blood_Cell_Count = Inr fig \<and>
      length (trace_x (trendline fig)) = 100 \<and>
      trace_x (trendline fig) ! 0 = 1 \<and> trace_x (trendline fig) ! 99 = 3)"
proof -
  have h1: "Hemoglobin \<in> set numeric_columns" by (simp add: numeric_columns_def)
  have h4: "0 < var [1, 2, 3]" by (simp add: var_123)
  show ?thesis
    using h1 h4 line_table_columns trendline_samples [OF h1 line_table_columns h4]
    by auto
qed

lemma ones_table_columns:
  "column ones_table Hemoglobin = map Num [1, 1, 1]"
  "column ones_table White_Blood_Cell_Count = map Num [5, 8, 11]"
  by (simp_all add: ones_table_def column_def example_row_def)

lemma zeros_table_columns:
  "column zeros_table Hemoglobin = map Num [0, 0, 0]"
  "column zeros_table White_Blood_Cell_Count = map Num [5, 8, 11]"
  by (simp_all add: zeros_table_def column_def example_row_def)

text \<open>
  C4, as the spec states it, fails: for the x column 1, 1, 1 the callback raises
  \<open>KeyError\<close> for the name \<open>const\<close>. The column is taken for the constant of the
  model, no column of ones is added, and the fit has no parameter called \<open>const\<close>.
  The program defines and raises no error for invalid regression input.
\<close>

theorem constant_x_counterexample:
  "column ones_table Hemoglobin = [Num 1, Num 1, Num 1] \<and>
   update_scatter_plot ones_table Hemoglobin White_Blood_Cell_Count = Inl (KeyError ''const'')"
proof -
  have "ones_table \<noteq> []" by (simp add: ones_table_def)
  then show ?thesis
    unfolding update_scatter_plot_def ones_table_columns
    by (simp add: numbers_map_Num add_constant_def safe_is_const_def OLS_fit_params_def
        pinv_solve_def Let_def)
qed

lemma Max_Min_const:
  assumes "xs \<noteq> []" "\<forall>x \<in> set xs. x = (c::real)"
  shows "Max (set xs) = c" "Min (set xs) = c"
proof -
  have "set xs = {c}" using assms by (cases xs) auto
  then show "Max (set xs) = c" "Min (set xs) = c" by simp_all
qed

lemma sum_xy_zero:
  "\<forall>x \<in> set xs. x = (0::real) \<Longrightarrow> sum_list (map2 (*) xs ys) = 0"
  by (induction xs arbitrary: ys) (auto simp: zip_Cons1 split: list.splits)

lemma linspace_same: "linspace a a n = replicate n a"
  by (simp add: linspace_def map_replicate_const)

lemma zeros_blank_table_columns:
  "column zeros_blank_table Hemoglobin = map Num [0, 0, 0]"
  "column zeros_blank_table White_Blood_Cell_Count = [Num 5, NaN, Num 11]"
  by (simp_all add: zeros_blank_table_def column_def example_row_def)

lemma numbers_length: "numbers cs = Some ys \<Longrightarrow> length ys = length cs"
  by (induction cs arbitrary: ys rule: numbers.induct) (auto split: option.splits)

lemma var_const:
  assumes "\<forall>x \<in> set xs. x = c"
  shows "var xs = 0"
proof (cases "xs = []")
  case True
  then show ?thesis by (simp add: var_def)
next
  case False
  have "real (length xs) * real (length xs) * var xs = 0"
    unfolding var_times_n2 [OF False] const_list_sums [OF assms] by (simp add: algebra_simps)
  then show ?thesis using False by simp
qed

lemma update_scatter_plot_zero_column:
  assumes xv: "x_variable \<in> set numeric_columns"
    and df: "df \<noteq> []"
    and cx: "column df x_variable = map Num xs"
    and z: "\<forall>x \<in> set xs. x = 0"
  shows "\<exists>fig. update_scatter_plot df x_variable y_variable = Inr fig \<and>
     length (trace_x (trendline fig)) = 100 \<and>
     trace_x (trendline fig) = replicate 100 0 \<and>
     trace_y (trendline fig) =
       replicate 100 (case numbers (column df y_variable) of
                        None \<Rightarrow> NaN | Some ys \<Rightarrow> Num (mean ys))"
proof -
  have ldf: "length xs = length df"
    using cx by (metis column_def length_map)
  have ne: "xs \<noteq> []" using df ldf by auto
  have nc: "x_variable \<noteq> ''const''" using numeric_columns_not_const [OF xv] .
  have n0: "real (length xs) \<noteq> 0" using ne by simp
  have mm: "Max (set xs) = 0" "Min (set xs) = 0" using Max_Min_const [OF ne z] by simp_all
  have sums: "sum_list xs = 0" "sum_list (map (\<lambda>x. x * x) xs) = 0"
    using const_list_sums [OF z] by simp_all
  have "\<not> list_ex (\<lambda>x. x \<noteq> 0) xs" using z by (simp add: list_ex_iff)
  then have ac: "add_constant xs = With_const xs"
    by (simp add: add_constant_def safe_is_const_def)
  show ?thesis
  proof (cases "numbers (column df y_variable)")
    case None
    then show ?thesis
      unfolding update_scatter_plot_def cx
      using df nc
      by (simp add: numbers_map_Num OLS_fit_params_def ac mm linspace_same Let_def)
  next
    case (Some ys)
    have "length (column df y_variable) = length df" by (simp add: column_def)
    then have len: "length ys = length xs" using numbers_length [OF Some] ldf by simp
    have ps: "pinv_solve (With_const xs) ys = [mean ys, 0]"
      using n0 len by (simp add: pinv_solve_def Let_def sums sum_xy_zero [OF z] mean_def)
    show ?thesis
      unfolding update_scatter_plot_def cx
      using df nc Some
      by (simp add: numbers_map_Num OLS_fit_params_def ac ps mm linspace_same Let_def)
  qed
qed

text \<open>
  C4, amended. The program raises no error of its own for invalid regression input.
  The two columns of a regression always have the same length, since both are read
  from the same table. A table without rows makes the callback fail with the
  \<open>ValueError\<close> of the regression library. When the table has rows and every x value
  is 0 (so \<open>var(x) = 0\<close>), the callback raises nothing: it returns a trendline of
  100 samples at \<open>x = 0\<close>, each with \<open>y = mean(y)\<close> when the y column has no blank
  cell, and each with \<open>y\<close> NaN when it has one.
\<close>

theorem degenerate_regression_input_outcome:
  assumes "x_variable \<in> set numeric_columns"
  shows "length (column df x_variable) = length (column df y_variable) \<and>
         update_scatter_plot [] x_variable y_variable = Inl ValueError \<and>
         (df \<noteq> [] \<and> column df x_variable = map Num xs \<and> (\<forall>x \<in> set xs. x = 0) \<longrightarrow>
            var xs = 0 \<and>
            (\<exists>fig. update_scatter_plot df x_variable y_variable = Inr fig \<and>
               length (trace_x (trendline fig)) = 100 \<and>
               trace_x (trendline fig) = replicate 100 0 \<and>
               trace_y (trendline fig) =
                 replicate 100 (case numbers (column df y_variable) of
                                  None \<Rightarrow> NaN | Some ys \<Rightarrow> Num (mean ys))))"
proof -
  have "length (column df x_variable) = length (column df y_variable)"
    by (simp add: column_def)
  moreover have "update_scatter_plot [] x_variable y_variable = Inl ValueError"
    by (simp add: update_scatter_plot_def)
  moreover have "var xs = 0" if "\<forall>x \<in> set xs. x = 0"
    using var_const [OF that] .
  ultimately show ?thesis
    using update_scatter_plot_zero_column [OF assms, of df xs y_variable] by blast
qed

theorem degenerate_regression_input_outcome_witness:
  "Hemoglobin \<in> set numeric_columns \<and>
   zeros_table \<noteq> [] \<and> zeros_blank_table \<noteq> [] \<and>
   column zeros_table Hemoglobin = map Num [0, 0, 0] \<and>
   column zeros_blank_table Hemoglobin = map Num [0, 0, 0] \<and>
   var [0, 0, 0] = 0 \<and>
   update_scatter_plot [] Hemoglobin White_Blood_Cell_Count = Inl ValueError \<and>
   (\<exists>fig. update_scatter_plot zeros_table Hemoglobin White_Blood_Cell_Count = Inr fig \<and>
      trace_x (trendline fig) = replicate 100 0 \<and>
      trace_y (trendline fig) = replicate 100 (Num 8)) \<and>
   (\<exists>fig. update_scatter_plot zeros_blank_table Hemoglobin White_Blood_Cell_Count = Inr fig \<and>
      trace_x (trendline fig) = replicate 100 0 \<and>
      trace_y (trendline fig) = replicate 100 NaN)"
proof -
  have h1: "Hemoglobin \<in> set numeric_columns" by (simp add: numeric_columns_def)
  have t1: "zeros_table \<noteq> []" by (simp add: zeros_table_def)
  have t2: "zeros_blank_table \<noteq> []" by (simp add: zeros_blank_table_def)
  have m: "mean [5, 8, 11] = 8" by (simp add: mean_def)
  have n1: "numbers (column zeros_table White_Blood_Cell_Count) = Some [5, 8, 11]"
    using zeros_table_columns(2) by simp
  have n2: "numbers (column zeros_blank_table White_Blood_Cell_Count) = None"
    using zeros_blank_table_columns(2) by simp
  show ?thesis
    using h1 t1 t2 zeros_table_columns(1) zeros_blank_table_columns(1) m n1 n2
      degenerate_regression_input_outcome
        [OF h1, of zeros_table White_Blood_Cell_Count "[0, 0, 0]"]
      degenerate_regression_input_outcome
        [OF h1, of zeros_blank_table White_Blood_Cell_Count "[0, 0, 0]"]
    by auto
qed

end
